theory Spec2Isabelle
  imports Main "HOL-Library.Sublist"
begin

section \<open>Python strings\<close>

text \<open>
  A Python \<^verbatim>\<open>str\<close> is a sequence of Unicode code points, so it is modelled as a list of
  natural numbers (HOL's \<^typ>\<open>char\<close> is a byte and cannot hold Japanese script).
  \<open>str_of\<close> turns an ASCII literal of the source into such a list.
\<close>

type_synonym pystr = "nat list"

definition str_of :: "string \<Rightarrow> pystr" where
  "str_of s = map of_char s"

text \<open>
  \<^verbatim>\<open>str.isspace\<close> of CPython: the code points 9-13, 28-32, 133, 160, 5760, 8192-8202,
  8232, 8233, 8239, 8287 and 12288 (this contains every character with the Unicode
  property White_Space).
\<close>

definition py_isspace :: "nat \<Rightarrow> bool" where
  "py_isspace c \<longleftrightarrow>
     (9 \<le> c \<and> c \<le> 13) \<or> (28 \<le> c \<and> c \<le> 32) \<or> c = 133 \<or> c = 160 \<or> c = 5760 \<or>
     (8192 \<le> c \<and> c \<le> 8202) \<or> c = 8232 \<or> c = 8233 \<or> c = 8239 \<or> c = 8287 \<or> c = 12288"

text \<open>\<^verbatim>\<open>str.strip()\<close> with no argument: leading and trailing whitespace removed.\<close>

definition strip :: "pystr \<Rightarrow> pystr" where
  "strip s = rev (dropWhile py_isspace (rev (dropWhile py_isspace s)))"

text \<open>\<^verbatim>\<open>sep.join(parts)\<close>.\<close>

fun join :: "pystr \<Rightarrow> pystr list \<Rightarrow> pystr" where
  "join sep [] = []"
| "join sep [x] = x"
| "join sep (x # y # ys) = x @ sep @ join sep (y # ys)"

section \<open>The argument parser\<close>

text \<open>
  \<^verbatim>\<open>parse_args\<close> builds an \<^verbatim>\<open>argparse.ArgumentParser\<close> with two optional arguments and
  calls \<^verbatim>\<open>parser.parse_args()\<close> on \<^verbatim>\<open>sys.argv[1:]\<close>:
  \<^verbatim>\<open>
    parser.add_argument("--mode", choices=("A", "B", "C"), default="C", ...)
    parser.add_argument("--config", default=None, ...)
  \<close>
  The parser has a third action, \<^verbatim>\<open>-h/--help\<close>, which argparse adds by itself.
  What follows is argparse's algorithm (CPython 3.11, \<^verbatim>\<open>_parse_known_args\<close>) for a parser
  with these three actions, no positional argument, the prefix character \<^verbatim>\<open>-\<close> and
  abbreviations allowed (the defaults the source leaves in place).
\<close>

datatype action = Help_action | Mode_action | Config_action

text \<open>The parser's \<^verbatim>\<open>_option_string_actions\<close>, in the order the options were added.\<close>

definition option_string_actions :: "(pystr \<times> action) list" where
  "option_string_actions =
     [(str_of ''-h'', Help_action), (str_of ''--help'', Help_action),
      (str_of ''--mode'', Mode_action), (str_of ''--config'', Config_action)]"

text \<open>\<^verbatim>\<open>nargs\<close>: the help action takes no argument, a store action exactly one.\<close>

fun nargs :: "action \<Rightarrow> nat" where
  "nargs Help_action = 0"
| "nargs Mode_action = 1"
| "nargs Config_action = 1"

text \<open>\<^verbatim>\<open>choices\<close>: only \<^verbatim>\<open>--mode\<close> has them.\<close>

fun choices :: "action \<Rightarrow> pystr list option" where
  "choices Help_action = None"
| "choices Mode_action = Some [str_of ''A'', str_of ''B'', str_of ''C'']"
| "choices Config_action = None"

text \<open>The \<^verbatim>\<open>Namespace\<close> that \<^verbatim>\<open>parse_args\<close> returns; \<open>config = None\<close> is Python's \<^verbatim>\<open>None\<close>.\<close>

record namespace =
  mode :: pystr
  config :: "pystr option"

text \<open>The defaults: \<^verbatim>\<open>default="C"\<close> and \<^verbatim>\<open>default=None\<close>.\<close>

definition default_namespace :: namespace where
  "default_namespace = \<lparr>mode = str_of ''C'', config = None\<rparr>"

text \<open>
  The ways the parser rejects a command line. Each one prints the usage and an error
  message to standard error and exits with status 2 (\<^verbatim>\<open>ArgumentParser.error\<close>).
\<close>

datatype argparse_error =
    Ambiguous_option pystr "pystr list"
  | Expected_one_argument action
  | Ignored_explicit_argument action pystr
  | Invalid_choice action pystr
  | Unrecognized_arguments "pystr list"

datatype parse_result =
    Parsed namespace
  | Help_exit
  | Usage_error argparse_error

text \<open>
  An option tuple of argparse: the action (\<open>None\<close> for an option the parser does not
  know), the option string, the separator and the explicit argument (the text after
  \<^verbatim>\<open>=\<close>, or glued to a one-letter option).
\<close>

type_synonym option_tuple = "action option \<times> pystr \<times> pystr option \<times> pystr option"

text \<open>\<^verbatim>\<open>s.partition('=')\<close>: the text before the first \<^verbatim>\<open>=\<close>, and the text after it if there is one.\<close>

definition partition_eq :: "pystr \<Rightarrow> pystr \<times> pystr option" where
  "partition_eq s =
     (let r = dropWhile (\<lambda>c. c \<noteq> 61) s
      in (takeWhile (\<lambda>c. c \<noteq> 61) s, if r = [] then None else Some (tl r)))"

text \<open>
  \<^verbatim>\<open>_get_option_tuples\<close>: the options an unknown option string may abbreviate. The
  argument has at least two characters and starts with \<^verbatim>\<open>-\<close>.
\<close>

definition get_option_tuples :: "pystr \<Rightarrow> option_tuple list" where
  "get_option_tuples option_string =
     (case option_string of
        c0 # c1 # _ \<Rightarrow>
          if c1 = 45 then
            (let (option_prefix, explicit_arg) = partition_eq option_string;
                 sep = (case explicit_arg of None \<Rightarrow> None | Some _ \<Rightarrow> Some [61])
             in map (\<lambda>(os, a). (Some a, os, sep, explicit_arg))
                  (filter (\<lambda>(os, a). prefix option_prefix os) option_string_actions))
          else
            List.map_filter
              (\<lambda>(os, a).
                 if os = take 2 option_string
                 then Some (Some a, os, Some [], Some (drop 2 option_string))
                 else if prefix option_string os then Some (Some a, os, None, None)
                 else None)
              option_string_actions
      | _ \<Rightarrow> [])"

text \<open>
  The decimal digits of \<^verbatim>\<open>\d\<close> in a \<^verbatim>\<open>str\<close> pattern: the Unicode category Nd
  (Unicode 14.0, as in CPython 3.11), 61 runs of ten code points and one of fifty.
\<close>

definition decimal_runs :: "nat list" where
  "decimal_runs =
     [48, 1632, 1776, 1984, 2406, 2534, 2662, 2790, 2918, 3046, 3174, 3302, 3430, 3558,
      3664, 3792, 3872, 4160, 4240, 6112, 6160, 6470, 6608, 6784, 6800, 6992, 7088, 7232,
      7248, 42528, 43216, 43264, 43472, 43504, 43600, 44016, 65296, 66720, 68912, 69734,
      69872, 69942, 70096, 70384, 70736, 70864, 71248, 71360, 71472, 71904, 72016, 72784,
      73040, 73120, 92768, 92864, 93008, 123200, 123632, 125264, 130032]"

definition is_decimal :: "nat \<Rightarrow> bool" where
  "is_decimal c \<longleftrightarrow>
     list_ex (\<lambda>s. s \<le> c \<and> c < s + 10) decimal_runs \<or> (120782 \<le> c \<and> c \<le> 120831)"

text \<open>
  \<^verbatim>\<open>_negative_number_matcher\<close>, the pattern \<^verbatim>\<open>^-\d+$|^-\d*\.\d+$\<close>; \<^verbatim>\<open>$\<close> also matches before
  a newline that ends the string.
\<close>

definition negative_number_body :: "pystr \<Rightarrow> bool" where
  "negative_number_body s =
     (case s of
        [] \<Rightarrow> False
      | c # r \<Rightarrow>
          c = 45 \<and>
          ((r \<noteq> [] \<and> list_all is_decimal r) \<or>
           (case dropWhile is_decimal r of
              [] \<Rightarrow> False
            | d # f \<Rightarrow> d = 46 \<and> f \<noteq> [] \<and> list_all is_decimal f)))"

definition negative_number_matcher :: "pystr \<Rightarrow> bool" where
  "negative_number_matcher s \<longleftrightarrow>
     negative_number_body s \<or> (s \<noteq> [] \<and> last s = 10 \<and> negative_number_body (butlast s))"

text \<open>
  \<^verbatim>\<open>_parse_optional\<close>: \<open>Inr None\<close> for an argument that is meant as a positional,
  \<open>Inr (Some t)\<close> for an option, \<open>Inl e\<close> when the parser stops on an ambiguous
  abbreviation.
\<close>

definition parse_optional :: "pystr \<Rightarrow> argparse_error + option_tuple option" where
  "parse_optional arg_string =
     (if arg_string = [] then Inr None
      else if hd arg_string \<noteq> 45 then Inr None
      else case map_of option_string_actions arg_string of
        Some a \<Rightarrow> Inr (Some (Some a, arg_string, None, None))
      | None \<Rightarrow>
          if length arg_string = 1 then Inr None
          else
            (let (option_string, explicit_arg) = partition_eq arg_string
             in case (explicit_arg, map_of option_string_actions option_string) of
                  (Some e, Some a) \<Rightarrow> Inr (Some (Some a, option_string, Some [61], Some e))
                | _ \<Rightarrow>
                    (let option_tuples = get_option_tuples arg_string
                     in if length option_tuples > 1
                        then Inl (Ambiguous_option arg_string (map (\<lambda>t. fst (snd t)) option_tuples))
                        else if length option_tuples = 1 then Inr (Some (hd option_tuples))
                        else if negative_number_matcher arg_string then Inr None
                        else if 32 \<in> set arg_string then Inr None
                        else Inr (Some (None, arg_string, None, None)))))"

text \<open>
  The first pass over the argument strings: each gets its pattern, \<^verbatim>\<open>A\<close> for an
  argument, \<^verbatim>\<open>O\<close> for an option (with its tuple), \<^verbatim>\<open>-\<close> for \<^verbatim>\<open>--\<close>; everything after
  \<^verbatim>\<open>--\<close> is an argument.
\<close>

datatype arg_pattern = Pat_A | Pat_O option_tuple | Pat_dashes

fun arg_strings_pattern :: "pystr list \<Rightarrow> argparse_error + arg_pattern list" where
  "arg_strings_pattern [] = Inr []"
| "arg_strings_pattern (arg_string # rest) =
     (if arg_string = str_of ''--'' then Inr (Pat_dashes # map (\<lambda>_. Pat_A) rest)
      else case parse_optional arg_string of
        Inl e \<Rightarrow> Inl e
      | Inr t \<Rightarrow>
          (case arg_strings_pattern rest of
             Inl e \<Rightarrow> Inl e
           | Inr ps \<Rightarrow> Inr ((case t of None \<Rightarrow> Pat_A | Some tup \<Rightarrow> Pat_O tup) # ps)))"

text \<open>
  \<^verbatim>\<open>consume_optional\<close>. Its result is the list of actions to take (each with its
  argument strings), the strings it adds to \<^verbatim>\<open>extras\<close>, and how many of the following
  argument strings it consumed.
\<close>

type_synonym action_tuple = "action \<times> pystr list"
type_synonym consumed = "action_tuple list \<times> pystr list \<times> nat"

text \<open>No explicit argument: the option's arguments are matched against what follows.\<close>

definition consume_following ::
  "action \<Rightarrow> (pystr \<times> arg_pattern) list \<Rightarrow> action_tuple list \<Rightarrow> argparse_error + consumed" where
  "consume_following a following action_tuples =
     (if nargs a = 0 then Inr (action_tuples @ [(a, [])], [], 0)
      else case following of
        (s, Pat_A) # _ \<Rightarrow> Inr (action_tuples @ [(a, [s])], [], 1)
      | _ \<Rightarrow> Inl (Expected_one_argument a))"

text \<open>
  An explicit argument: a one-letter option without arguments may be followed by more
  one-letter options in the same string (\<^verbatim>\<open>-xyz\<close>); an option with one argument takes the
  explicit argument; otherwise the explicit argument is an error.
\<close>

function consume_explicit ::
  "action \<Rightarrow> pystr \<Rightarrow> pystr \<Rightarrow> pystr \<Rightarrow> (pystr \<times> arg_pattern) list \<Rightarrow> action_tuple list
     \<Rightarrow> argparse_error + consumed" where
  "consume_explicit a option_string sep explicit_arg following action_tuples =
     (if nargs a = 0 \<and> option_string ! 1 \<noteq> 45 \<and> explicit_arg \<noteq> [] then
        if sep \<noteq> [] \<or> hd explicit_arg = 45 then Inl (Ignored_explicit_argument a explicit_arg)
        else
          (let action_tuples' = action_tuples @ [(a, [])];
               option_string' = [hd option_string, hd explicit_arg]
           in case map_of option_string_actions option_string' of
                Some a' \<Rightarrow>
                  if tl explicit_arg = [] then consume_following a' following action_tuples'
                  else if hd (tl explicit_arg) = 61
                  then consume_explicit a' option_string' [61] (tl (tl explicit_arg)) following action_tuples'
                  else consume_explicit a' option_string' [] (tl explicit_arg) following action_tuples'
              | None \<Rightarrow> Inr (action_tuples', [hd option_string # explicit_arg], 0))
      else if nargs a = 1 then Inr (action_tuples @ [(a, [explicit_arg])], [], 0)
      else Inl (Ignored_explicit_argument a explicit_arg))"
  by pat_completeness auto
termination
  by (relation "measure (\<lambda>(a, os, sep, e, f, ts). length e)") auto

definition consume_optional ::
  "pystr \<Rightarrow> option_tuple \<Rightarrow> (pystr \<times> arg_pattern) list \<Rightarrow> argparse_error + consumed" where
  "consume_optional arg_string t following =
     (case t of
        (None, _, _, _) \<Rightarrow> Inr ([], [arg_string], 0)
      | (Some a, option_string, sep, Some explicit_arg) \<Rightarrow>
          consume_explicit a option_string (case sep of None \<Rightarrow> [] | Some s \<Rightarrow> s) explicit_arg following []
      | (Some a, option_string, sep, None) \<Rightarrow> consume_following a following [])"

text \<open>
  \<^verbatim>\<open>take_action\<close>: the help action prints the help and exits; a store action checks the
  value against the choices (\<^verbatim>\<open>_check_value\<close>) and stores it in the namespace.
\<close>

fun store :: "action \<Rightarrow> pystr \<Rightarrow> namespace \<Rightarrow> namespace" where
  "store Mode_action v ns = ns\<lparr>mode := v\<rparr>"
| "store Config_action v ns = ns\<lparr>config := Some v\<rparr>"
| "store Help_action v ns = ns"

definition check_value :: "action \<Rightarrow> pystr \<Rightarrow> bool" where
  "check_value a v = (case choices a of None \<Rightarrow> True | Some cs \<Rightarrow> v \<in> set cs)"

fun take_action :: "namespace \<Rightarrow> action_tuple \<Rightarrow> parse_result" where
  "take_action ns (Help_action, args) = Help_exit"
| "take_action ns (a, [v]) =
     (if check_value a v then Parsed (store a v ns) else Usage_error (Invalid_choice a v))"
| "take_action ns (a, args) = Parsed ns"

fun take_actions :: "namespace \<Rightarrow> action_tuple list \<Rightarrow> parse_result" where
  "take_actions ns [] = Parsed ns"
| "take_actions ns (t # ts) =
     (case take_action ns t of
        Parsed ns' \<Rightarrow> take_actions ns' ts
      | r \<Rightarrow> r)"

text \<open>
  The main loop: a string that is no option is an extra (the parser has no
  positional), an option is consumed with its arguments. At the end,
  \<^verbatim>\<open>parse_args\<close> rejects any extras.
\<close>

function consume :: "(pystr \<times> arg_pattern) list \<Rightarrow> namespace \<Rightarrow> pystr list \<Rightarrow> parse_result" where
  "consume [] ns extras =
     (if extras = [] then Parsed ns else Usage_error (Unrecognized_arguments extras))"
| "consume ((arg_string, Pat_A) # rest) ns extras = consume rest ns (extras @ [arg_string])"
| "consume ((arg_string, Pat_dashes) # rest) ns extras = consume rest ns (extras @ [arg_string])"
| "consume ((arg_string, Pat_O t) # rest) ns extras =
     (case consume_optional arg_string t rest of
        Inl e \<Rightarrow> Usage_error e
      | Inr (action_tuples, added, n) \<Rightarrow>
          (case take_actions ns action_tuples of
             Parsed ns' \<Rightarrow> consume (drop n rest) ns' (extras @ added)
           | r \<Rightarrow> r))"
  by pat_completeness auto
termination
  by (relation "measure (\<lambda>(xs, ns, extras). length xs)") auto

definition parse_args :: "pystr list \<Rightarrow> parse_result" where
  "parse_args argv =
     (case arg_strings_pattern argv of
        Inl e \<Rightarrow> Usage_error e
      | Inr ps \<Rightarrow> consume (zip argv ps) default_namespace [])"

section \<open>JSON serialisation\<close>

text \<open>
  The values the script hands to \<^verbatim>\<open>json.dumps\<close>: strings, lists, and dictionaries with
  string keys (a Python \<^verbatim>\<open>dict\<close> keeps its keys in insertion order, so a dictionary is a
  list of pairs).
\<close>

datatype json = JStr pystr | JList "json list" | JDict "(pystr \<times> json) list"

text \<open>
  \<^verbatim>\<open>json.dumps(payload, ensure_ascii=False)\<close> encodes a string with
  \<^verbatim>\<open>encode_basestring\<close>: between double quotes, with the backslash (92), the double
  quote (34) and the control characters below U+0020 replaced by their escapes (a
  backslash and the same character for the first two; a backslash and \<^verbatim>\<open>b\<close>, \<^verbatim>\<open>f\<close>,
  \<^verbatim>\<open>n\<close>, \<^verbatim>\<open>r\<close>, \<^verbatim>\<open>t\<close> for the code points 8, 12, 10, 13, 9; a backslash, \<^verbatim>\<open>u00\<close>
  and two lower-case hexadecimal digits for the other control characters), and every
  other code point left as it is.
\<close>

definition hex_digit :: "nat \<Rightarrow> nat" where
  "hex_digit d = (if d < 10 then 48 + d else 87 + d)"

definition escape :: "nat \<Rightarrow> pystr" where
  "escape c =
     (if c = 92 then [92, 92]
      else if c = 34 then [92, 34]
      else if c = 8 then [92, 98]
      else if c = 12 then [92, 102]
      else if c = 10 then [92, 110]
      else if c = 13 then [92, 114]
      else if c = 9 then [92, 116]
      else if c < 32 then [92, 117, 48, 48, hex_digit (c div 16), hex_digit (c mod 16)]
      else [c])"

definition encode_basestring :: "pystr \<Rightarrow> pystr" where
  "encode_basestring s = [34] @ concat (map escape s) @ [34]"

text \<open>
  Lists and dictionaries with the default separators \<^verbatim>\<open>", "\<close> and \<^verbatim>\<open>": "\<close>, on one
  line.
\<close>

fun dumps :: "json \<Rightarrow> pystr" where
  "dumps (JStr s) = encode_basestring s"
| "dumps (JList xs) = [91] @ join [44, 32] (map dumps xs) @ [93]"
| "dumps (JDict kvs) =
     [123] @ join [44, 32] (map (\<lambda>kv. encode_basestring (fst kv) @ [58, 32] @ dumps (snd kv)) kvs) @ [125]"

section \<open>The external tokenizer\<close>

text \<open>
  SudachiPy is not part of the repository: the script only calls it. A morpheme is
  what its five accessors return (\<^verbatim>\<open>surface()\<close>, \<^verbatim>\<open>dictionary_form()\<close>,
  \<^verbatim>\<open>reading_form()\<close>, \<^verbatim>\<open>part_of_speech()\<close>, \<^verbatim>\<open>normalized_form()\<close>).
\<close>

record morpheme =
  surface :: pystr
  dictionary_form :: pystr
  reading_form :: pystr
  part_of_speech :: "pystr list"
  normalized_form :: pystr

datatype split_mode = SplitMode_A | SplitMode_B | SplitMode_C

text \<open>An exception, by the name of its class.\<close>

datatype py_exception = Raised string

text \<open>
  The library as the script uses it: \<^verbatim>\<open>dictionary.Dictionary(**kwargs)\<close> makes a
  dictionary object, \<^verbatim>\<open>.create()\<close> makes a tokenizer object from it, and
  \<^verbatim>\<open>.tokenize(text, split_mode)\<close> returns the morphemes. Objects are handles; each call
  may raise instead of returning.
\<close>

type_synonym obj = nat
type_synonym kwargs = "(string \<times> pystr) list"

record sudachipy =
  Dictionary :: "kwargs \<Rightarrow> py_exception + obj"
  create :: "obj \<Rightarrow> py_exception + obj"
  tokenize :: "obj \<Rightarrow> pystr \<Rightarrow> split_mode \<Rightarrow> py_exception + morpheme list"

text \<open>
  \<^verbatim>\<open>getattr(tokenizer.Tokenizer.SplitMode, name)\<close>: the enumeration has the members
  \<^verbatim>\<open>A\<close>, \<^verbatim>\<open>B\<close> and \<^verbatim>\<open>C\<close>. (The parser lets no other name through.)
\<close>

definition getattr_SplitMode :: "pystr \<Rightarrow> py_exception + split_mode" where
  "getattr_SplitMode name =
     (if name = str_of ''A'' then Inr SplitMode_A
      else if name = str_of ''B'' then Inr SplitMode_B
      else if name = str_of ''C'' then Inr SplitMode_C
      else Inl (Raised ''AttributeError''))"

section \<open>The script\<close>

text \<open>
  What a run does that can be seen from outside: what it writes to standard output and
  to standard error, how it ends, and which calls it makes into the tokenizer library.
  The text argparse prints (its help, its usage and error message) depends on the
  program name and is kept abstract. A run ends by exiting with a status (returning
  from \<^verbatim>\<open>main\<close> is status 0), or by an exception nobody catches, which the interpreter
  reports with a traceback and status 1. Reading standard input and writing the two
  streams are taken to succeed: the model starts from the text \<^verbatim>\<open>sys.stdin.read()\<close>
  returns and ends with the text handed to the streams.
\<close>

datatype written = Text pystr | Argparse_help | Argparse_usage_and_error argparse_error

datatype ending = Exit nat | Uncaught py_exception

datatype ext_call =
    Call_Dictionary kwargs
  | Call_create obj
  | Call_tokenize obj pystr split_mode

record outcome =
  stdout :: "written list"
  stderr :: "written list"
  ending :: ending
  calls :: "ext_call list"

fun exit_status :: "ending \<Rightarrow> nat" where
  "exit_status (Exit n) = n"
| "exit_status (Uncaught e) = 1"

text \<open>Python's truth value of \<^verbatim>\<open>args.config\<close>: \<^verbatim>\<open>None\<close> and the empty string are false.\<close>

definition truthy :: "pystr option \<Rightarrow> bool" where
  "truthy v = (case v of None \<Rightarrow> False | Some s \<Rightarrow> s \<noteq> [])"

text \<open>
  Lines 42-44 of \<^verbatim>\<open>main\<close>:
  \<^verbatim>\<open>
    dict_args = {}
    if args.config:
        dict_args["config_path"] = args.config
  \<close>
\<close>

definition dict_args :: "namespace \<Rightarrow> kwargs" where
  "dict_args args = (if truthy (config args) then [(''config_path'', the (config args))] else [])"

text \<open>
  Lines 46-49: the dictionary, the tokenizer, the split mode and the call of
  \<^verbatim>\<open>tokenize\<close>. The result is the morphemes or the exception that stopped the run, with
  the library calls made up to there.
\<close>

definition run_tokenizer ::
  "sudachipy \<Rightarrow> namespace \<Rightarrow> pystr \<Rightarrow> (py_exception + morpheme list) \<times> ext_call list" where
  "run_tokenizer lib args text =
     (case Dictionary lib (dict_args args) of
        Inl e \<Rightarrow> (Inl e, [Call_Dictionary (dict_args args)])
      | Inr d \<Rightarrow>
          (case create lib d of
             Inl e \<Rightarrow> (Inl e, [Call_Dictionary (dict_args args), Call_create d])
           | Inr tokenizer_obj \<Rightarrow>
               (case getattr_SplitMode (mode args) of
                  Inl e \<Rightarrow> (Inl e, [Call_Dictionary (dict_args args), Call_create d])
                | Inr split_mode \<Rightarrow>
                    (tokenize lib tokenizer_obj text split_mode,
                     [Call_Dictionary (dict_args args), Call_create d,
                      Call_tokenize tokenizer_obj text split_mode]))))"

text \<open>Lines 53-59: the dictionary built for one morpheme.\<close>

definition morpheme_dict :: "morpheme \<Rightarrow> json" where
  "morpheme_dict m =
     JDict [(str_of ''surface'', JStr (surface m)),
            (str_of ''dictionaryForm'', JStr (dictionary_form m)),
            (str_of ''reading'', JStr (reading_form m)),
            (str_of ''partOfSpeech'', JList (map JStr (part_of_speech m))),
            (str_of ''normalizedForm'', JStr (normalized_form m))]"

text \<open>Lines 50-60: the loop that appends one dictionary per morpheme to \<^verbatim>\<open>payload\<close>.\<close>

fun payload_loop :: "morpheme list \<Rightarrow> json list \<Rightarrow> json list" where
  "payload_loop [] payload = payload"
| "payload_loop (m # morphemes) payload = payload_loop morphemes (payload @ [morpheme_dict m])"

text \<open>\<^verbatim>\<open>print(x)\<close> writes the text and a newline to standard output.\<close>

definition print :: "pystr \<Rightarrow> written" where
  "print x = Text (x @ [10])"

text \<open>\<^verbatim>\<open>main\<close> after \<^verbatim>\<open>parse_args\<close> has returned (lines 35-62).\<close>

definition main_body :: "sudachipy \<Rightarrow> namespace \<Rightarrow> pystr \<Rightarrow> outcome" where
  "main_body lib args raw_text =
     (let text = strip raw_text
      in if text = [] then
           \<lparr>stdout = [print (str_of ''[]'')], stderr = [], ending = Exit 0, calls = []\<rparr>
         else
           (case run_tokenizer lib args text of
              (Inl e, cs) \<Rightarrow> \<lparr>stdout = [], stderr = [], ending = Uncaught e, calls = cs\<rparr>
            | (Inr morphemes, cs) \<Rightarrow>
                \<lparr>stdout = [print (dumps (JList (payload_loop morphemes [])))], stderr = [],
                 ending = Exit 0, calls = cs\<rparr>))"

text \<open>
  \<^verbatim>\<open>main\<close>: \<^verbatim>\<open>parse_args()\<close> comes first and may end the run (argparse exits with
  status 2 after a usage error, with status 0 after printing the help).
\<close>

definition main :: "sudachipy \<Rightarrow> pystr list \<Rightarrow> pystr \<Rightarrow> outcome" where
  "main lib argv stdin_text =
     (case parse_args argv of
        Usage_error e \<Rightarrow>
          \<lparr>stdout = [], stderr = [Argparse_usage_and_error e], ending = Exit 2, calls = []\<rparr>
      | Help_exit \<Rightarrow> \<lparr>stdout = [Argparse_help], stderr = [], ending = Exit 0, calls = []\<rparr>
      | Parsed args \<Rightarrow> main_body lib args stdin_text)"

text \<open>
  The module: the import guard of lines 8-14, then \<^verbatim>\<open>main()\<close>. The first argument is
  the result of \<^verbatim>\<open>from sudachipy import dictionary, tokenizer\<close>: the library, or
  \<open>None\<close> when the import raises \<^verbatim>\<open>ImportError\<close>. \<open>argv\<close> is \<^verbatim>\<open>sys.argv[1:]\<close> and
  \<open>stdin_text\<close> is what \<^verbatim>\<open>sys.stdin.read()\<close> returns.
\<close>

definition diagnostic :: pystr where
  "diagnostic =
     str_of ''SudachiPy is not installed. Run pnpm run sudachi:setup before using this script.'' @ [10]"

definition script :: "sudachipy option \<Rightarrow> pystr list \<Rightarrow> pystr \<Rightarrow> outcome" where
  "script imported argv stdin_text =
     (case imported of
        None \<Rightarrow> \<lparr>stdout = [], stderr = [Text diagnostic], ending = Exit 1, calls = []\<rparr>
      | Some lib \<Rightarrow> main lib argv stdin_text)"

section \<open>An example environment\<close>

text \<open>
  A stand-in for the library, used to run the model on concrete inputs: its dictionary
  can only be built from the bundled configuration (any \<^verbatim>\<open>config_path\<close> is a file it does
  not find), and its tokenizer makes one morpheme of every code point of the text.
\<close>

definition example_morpheme :: "nat \<Rightarrow> morpheme" where
  "example_morpheme c =
     \<lparr>surface = [c], dictionary_form = [c], reading_form = [c],
      part_of_speech = [[21517, 35422], [42]], normalized_form = [c]\<rparr>"

definition example_lib :: sudachipy where
  "example_lib =
     \<lparr>Dictionary = (\<lambda>kw. if kw = [] then Inr 0 else Inl (Raised ''FileNotFoundError'')),
      create = (\<lambda>d. Inr 1),
      tokenize = (\<lambda>t text sm. Inr (map example_morpheme text))\<rparr>"

section \<open>Notions used to state the properties\<close>

text \<open>The code points of a string that are not ASCII, in order.\<close>

definition non_ascii :: "pystr \<Rightarrow> pystr" where
  "non_ascii s = filter (\<lambda>c. 128 \<le> c) s"

text \<open>The non-ASCII code points of a morpheme's fields, in the order the script emits the fields.\<close>

definition non_ascii_of_morpheme :: "morpheme \<Rightarrow> pystr" where
  "non_ascii_of_morpheme m =
     non_ascii (surface m) @ non_ascii (dictionary_form m) @ non_ascii (reading_form m) @
     concat (map non_ascii (part_of_speech m)) @ non_ascii (normalized_form m)"


section \<open>Basic facts\<close>

lemma str_of_brackets: "str_of ''[]'' = [91, 93]"
  by (simp add: str_of_def)

lemma strip_whitespace: "\<forall>c\<in>set s. py_isspace c \<Longrightarrow> strip s = []"
proof -
  assume "\<forall>c\<in>set s. py_isspace c"
  then show ?thesis by (auto simp: strip_def dest: set_dropWhileD)
qed

lemma strip_empty_iff: "strip s = [] \<longleftrightarrow> (\<forall>c\<in>set s. py_isspace c)"
proof
  assume e: "strip s = []"
  show "\<forall>c\<in>set s. py_isspace c"
  proof (cases "dropWhile py_isspace s")
    case Nil
    then show ?thesis by simp
  next
    case (Cons x xs)
    then have "\<not> py_isspace x" using hd_dropWhile [of py_isspace s] by simp
    moreover from e have "\<forall>c\<in>set (dropWhile py_isspace s). py_isspace c"
      by (simp add: strip_def)
    ultimately show ?thesis using Cons by simp
  qed
next
  assume "\<forall>c\<in>set s. py_isspace c"
  then show "strip s = []" by (rule strip_whitespace)
qed

lemma payload_loop_append:
  "payload_loop morphemes payload = payload @ map morpheme_dict morphemes"
  by (induction morphemes arbitrary: payload) simp_all

lemma parse_args_Nil: "parse_args [] = Parsed default_namespace"
  by (simp add: parse_args_def)

lemma parse_args_no_arguments: "parse_args [] = Parsed \<lparr>mode = str_of ''C'', config = None\<rparr>"
  by (simp add: parse_args_Nil default_namespace_def)

text \<open>Some command lines, evaluated.\<close>

lemma parse_args_config_example:
  "parse_args [str_of ''--config'', str_of ''missing.json''] =
     Parsed \<lparr>mode = str_of ''C'', config = Some (str_of ''missing.json'')\<rparr>"
  by code_simp

lemma parse_args_config_empty:
  "parse_args [str_of ''--config'', []] = Parsed \<lparr>mode = str_of ''C'', config = Some []\<rparr>"
  by code_simp

lemma parse_args_mode_X:
  "parse_args [str_of ''--mode'', str_of ''X''] =
     Usage_error (Invalid_choice Mode_action (str_of ''X''))"
  by code_simp

lemma parse_args_mode_C:
  "parse_args [str_of ''--mode'', str_of ''C''] = Parsed \<lparr>mode = str_of ''C'', config = None\<rparr>"
  by code_simp

text \<open>The example library at work.\<close>

lemma strip_example: "strip [32, 26481, 20140, 10] = [26481, 20140]" "strip [26481] = [26481]"
  by (simp_all add: strip_def py_isspace_def)

lemma run_tokenizer_example:
  "run_tokenizer example_lib \<lparr>mode = str_of ''C'', config = None\<rparr> text =
     (Inr (map example_morpheme text),
      [Call_Dictionary [], Call_create 0, Call_tokenize 1 text SplitMode_C])"
  by (simp add: run_tokenizer_def dict_args_def truthy_def example_lib_def
      getattr_SplitMode_def str_of_def)

lemma run_tokenizer_example_other_handle:
  "run_tokenizer (example_lib\<lparr>create := \<lambda>d. Inr 7\<rparr>) \<lparr>mode = str_of ''C'', config = None\<rparr> text =
     (Inr (map example_morpheme text),
      [Call_Dictionary [], Call_create 0, Call_tokenize 7 text SplitMode_C])"
  by (simp add: run_tokenizer_def dict_args_def truthy_def example_lib_def
      getattr_SplitMode_def str_of_def)

text \<open>A run that gets its morphemes prints them and ends with status 0.\<close>

lemma script_tokenized:
  assumes "parse_args argv = Parsed args" and "strip stdin_text \<noteq> []"
    and "fst (run_tokenizer lib args (strip stdin_text)) = Inr morphemes"
  shows "script (Some lib) argv stdin_text =
           \<lparr>stdout = [print (dumps (JList (payload_loop morphemes [])))], stderr = [],
            ending = Exit 0, calls = snd (run_tokenizer lib args (strip stdin_text))\<rparr>"
  using assms
  by (cases "run_tokenizer lib args (strip stdin_text)")
     (simp add: script_def main_def main_body_def)

lemma run_tokenizer_cong:
  "dict_args a = dict_args b \<Longrightarrow> mode a = mode b \<Longrightarrow> run_tokenizer lib a t = run_tokenizer lib b t"
  by (simp add: run_tokenizer_def split: sum.splits)



section \<open>Empty input\<close>

text \<open>
  Claim C1. When the standard input is empty or holds only whitespace (and the run
  gets as far as reading it: the library was imported and the argument parser accepted
  the command line), the script writes \<^verbatim>\<open>[]\<close> and a newline to standard output, nothing
  to standard error, ends with status 0, and makes no call into the tokenizer library.
\<close>

theorem whitespace_input_prints_empty_array:
  assumes "parse_args argv = Parsed args" and "\<forall>c\<in>set stdin_text. py_isspace c"
  shows "script (Some lib) argv stdin_text =
           \<lparr>stdout = [Text (str_of ''[]'' @ [10])], stderr = [], ending = Exit 0, calls = []\<rparr>"
  using assms by (simp add: script_def main_def main_body_def strip_whitespace print_def)

theorem whitespace_input_prints_empty_array_witness:
  "parse_args [] = Parsed default_namespace \<and>
   py_isspace 32 \<and> py_isspace 10 \<and> py_isspace 12288 \<and>
   script (Some example_lib) [] [32, 10, 12288] =
     \<lparr>stdout = [Text [91, 93, 10]], stderr = [], ending = Exit 0, calls = []\<rparr> \<and>
   script (Some example_lib) [] [] =
     \<lparr>stdout = [Text [91, 93, 10]], stderr = [], ending = Exit 0, calls = []\<rparr>"
proof -
  have p: "parse_args [] = Parsed default_namespace" by (rule parse_args_Nil)
  have w: "\<forall>c\<in>set [32, 10, 12288]. py_isspace c" by (simp add: py_isspace_def)
  have z: "\<forall>c\<in>set ([] :: pystr). py_isspace c" by simp
  show ?thesis
    using p w whitespace_input_prints_empty_array [OF p w, of example_lib]
      whitespace_input_prints_empty_array [OF p z, of example_lib]
    by (simp add: str_of_brackets)
qed

text \<open>
  Claim C8. With empty or whitespace-only input the dictionary and the tokenizer are
  never built: the run makes no library call and succeeds with \<^verbatim>\<open>[]\<close>, and it is the
  same run whatever the library would do, so also when \<^verbatim>\<open>--config\<close> names a file the
  dictionary constructor would fail on. (In the example, the same command line with the
  input U+6771 dies of the constructor's exception.) That no library call is made
  holds for every command line, accepted or not, and with or without the library.
\<close>

theorem whitespace_input_skips_dictionary:
  assumes "parse_args argv = Parsed args" and "\<forall>c\<in>set stdin_text. py_isspace c"
  shows "calls (script (Some lib) argv stdin_text) = [] \<and>
         stdout (script (Some lib) argv stdin_text) = [Text (str_of ''[]'' @ [10])] \<and>
         ending (script (Some lib) argv stdin_text) = Exit 0 \<and>
         script (Some lib) argv stdin_text = script (Some lib') argv stdin_text \<and>
         calls (script imported argv' stdin_text) = []"
proof -
  have "calls (script imported argv' stdin_text) = []"
    using assms(2)
    by (cases imported; cases "parse_args argv'")
       (simp_all add: script_def main_def main_body_def strip_whitespace)
  then show ?thesis
    using assms by (simp add: script_def main_def main_body_def strip_whitespace print_def)
qed

theorem whitespace_input_skips_dictionary_witness:
  "Dictionary example_lib (dict_args \<lparr>mode = str_of ''C'', config = Some (str_of ''missing.json'')\<rparr>)
     = Inl (Raised ''FileNotFoundError'') \<and>
   ending (script (Some example_lib) [str_of ''--config'', str_of ''missing.json''] [26481])
     = Uncaught (Raised ''FileNotFoundError'') \<and>
   py_isspace 10 \<and>
   calls (script (Some example_lib) [str_of ''--config'', str_of ''missing.json''] [10]) = [] \<and>
   stdout (script (Some example_lib) [str_of ''--config'', str_of ''missing.json''] [10])
     = [Text [91, 93, 10]] \<and>
   ending (script (Some example_lib) [str_of ''--config'', str_of ''missing.json''] [10]) = Exit 0"
proof -
  have w: "\<forall>c\<in>set [10]. py_isspace c" by (simp add: py_isspace_def)
  have d: "Dictionary example_lib (dict_args \<lparr>mode = str_of ''C'', config = Some (str_of ''missing.json'')\<rparr>)
     = Inl (Raised ''FileNotFoundError'')"
    by (simp add: example_lib_def dict_args_def truthy_def str_of_def)
  have u: "ending (script (Some example_lib) [str_of ''--config'', str_of ''missing.json''] [26481])
     = Uncaught (Raised ''FileNotFoundError'')"
    by (simp add: script_def main_def parse_args_config_example main_body_def strip_example
        run_tokenizer_def d)
  show ?thesis
    using w d u
      whitespace_input_skips_dictionary [OF parse_args_config_example w,
        of example_lib example_lib None "[]"]
    by (simp add: str_of_brackets)
qed

section \<open>The missing library\<close>

text \<open>
  Claim C3. When the import of the tokenizer library fails, the script writes its
  diagnostic to standard error, exits with status 1 and writes nothing to standard
  output, whatever the command line and the input are.
\<close>

theorem missing_library_diagnostic:
  "script None argv stdin_text =
     \<lparr>stdout = [], stderr = [Text diagnostic], ending = Exit 1, calls = []\<rparr>"
  by (simp add: script_def)

theorem missing_library_diagnostic_witness:
  "stdout (script None [str_of ''--mode'', str_of ''X''] [26481, 20140]) = [] \<and>
   stderr (script None [str_of ''--mode'', str_of ''X''] [26481, 20140]) = [Text diagnostic] \<and>
   exit_status (ending (script None [str_of ''--mode'', str_of ''X''] [26481, 20140])) = 1 \<and>
   diagnostic \<noteq> []"
  using missing_library_diagnostic [of "[str_of ''--mode'', str_of ''X'']" "[26481, 20140]"]
  by (simp add: diagnostic_def)

section \<open>Standard error\<close>

text \<open>
  Claim C7 says that a run in which the library was imported writes nothing to standard
  error. The argument parser does: a command line it rejects, here \<^verbatim>\<open>--mode X\<close>, makes
  it print its usage and error message to standard error.
\<close>

theorem invalid_mode_writes_stderr:
  "stderr (script (Some example_lib) [str_of ''--mode'', str_of ''X''] [26481]) =
     [Argparse_usage_and_error (Invalid_choice Mode_action (str_of ''X''))] \<and>
   stderr (script (Some example_lib) [str_of ''--mode'', str_of ''X''] [26481]) \<noteq> []"
  by (simp add: script_def main_def parse_args_mode_X)

text \<open>
  Claim C7, amended. When the library was imported, the script writes to standard
  error in one case only: the argument parser rejects the command line, prints its
  usage and error message there, and the run ends with status 2 and nothing on standard
  output. When the command line is accepted, or asks for the help, nothing is written
  to standard error. (A traceback is the interpreter's, not the script's.)
\<close>

theorem stderr_only_for_usage_errors:
  "(\<forall>args. parse_args argv = Parsed args \<longrightarrow> stderr (script (Some lib) argv stdin_text) = []) \<and>
   (parse_args argv = Help_exit \<longrightarrow> stderr (script (Some lib) argv stdin_text) = []) \<and>
   (\<forall>e. parse_args argv = Usage_error e \<longrightarrow>
      stderr (script (Some lib) argv stdin_text) = [Argparse_usage_and_error e] \<and>
      stdout (script (Some lib) argv stdin_text) = [] \<and>
      ending (script (Some lib) argv stdin_text) = Exit 2)"
  by (auto simp: script_def main_def main_body_def Let_def split: prod.splits sum.splits)

theorem stderr_only_for_usage_errors_witness:
  "parse_args [] = Parsed default_namespace \<and>
   stderr (script (Some example_lib) [] [26481]) = [] \<and>
   parse_args [str_of ''--mode'', str_of ''X''] =
     Usage_error (Invalid_choice Mode_action (str_of ''X'')) \<and>
   ending (script (Some example_lib) [str_of ''--mode'', str_of ''X''] [26481]) = Exit 2"
  using stderr_only_for_usage_errors [of "[]" example_lib "[26481]"]
    stderr_only_for_usage_errors [of "[str_of ''--mode'', str_of ''X'']" example_lib "[26481]"]
  by (simp add: parse_args_Nil parse_args_mode_X)

section \<open>The configuration path\<close>

text \<open>
  Claim C10. \<^verbatim>\<open>--config\<close> with the empty string as its value behaves as if
  \<^verbatim>\<open>--config\<close> were left out: \<^verbatim>\<open>if args.config\<close> is false for the empty string as it
  is for \<^verbatim>\<open>None\<close>, so the dictionary constructor gets no \<^verbatim>\<open>config_path\<close>, and two
  command lines that differ only in this way give the same run.
\<close>

theorem empty_config_same_as_omitted:
  assumes "parse_args argv1 = Parsed args1" and "config args1 = Some []"
    and "parse_args argv2 = Parsed args2" and "config args2 = None"
    and "mode args1 = mode args2"
  shows "dict_args args1 = [] \<and> dict_args args2 = [] \<and>
         script imported argv1 stdin_text = script imported argv2 stdin_text"
proof -
  have d: "dict_args args1 = []" "dict_args args2 = []"
    using assms by (simp_all add: dict_args_def truthy_def)
  then have "run_tokenizer lib args1 t = run_tokenizer lib args2 t" for lib t
    using assms(5) by (simp add: run_tokenizer_cong)
  then have "main_body lib args1 stdin_text = main_body lib args2 stdin_text" for lib
    by (simp add: main_body_def Let_def cong: if_cong)
  then show ?thesis
    using d assms(1,3) by (simp add: script_def main_def split: option.splits)
qed

theorem empty_config_same_as_omitted_witness:
  "parse_args [str_of ''--config'', []] = Parsed \<lparr>mode = str_of ''C'', config = Some []\<rparr> \<and>
   parse_args [] = Parsed \<lparr>mode = str_of ''C'', config = None\<rparr> \<and>
   dict_args \<lparr>mode = str_of ''C'', config = Some []\<rparr> = [] \<and>
   script (Some example_lib) [str_of ''--config'', []] [26481] = script (Some example_lib) [] [26481] \<and>
   calls (script (Some example_lib) [str_of ''--config'', []] [26481]) =
     [Call_Dictionary [], Call_create 0, Call_tokenize 1 [26481] SplitMode_C]"
proof -
  have k: "calls (script (Some example_lib) [] [26481]) =
     [Call_Dictionary [], Call_create 0, Call_tokenize 1 [26481] SplitMode_C]"
    by (simp add: script_def main_def parse_args_no_arguments main_body_def strip_example
        run_tokenizer_example)
  show ?thesis
    using k parse_args_no_arguments
      empty_config_same_as_omitted [OF parse_args_config_empty _ parse_args_no_arguments,
        of "Some example_lib" "[26481]"]
    by (simp add: parse_args_config_empty)
qed

section \<open>Determinism\<close>

text \<open>
  Claim C9. Standard output depends on the run only through the input text, the
  parsed \<^verbatim>\<open>--mode\<close> and \<^verbatim>\<open>--config\<close>, and what the tokenizer returns: two runs with the
  same input and the same parsed arguments, in which the tokenizer gives the same
  result, write the same standard output (the libraries may differ otherwise, and so
  may the command lines that parse to the same arguments).
\<close>

theorem stdout_determined_by_morphemes:
  assumes "parse_args argv1 = Parsed args" and "parse_args argv2 = Parsed args"
    and "fst (run_tokenizer lib1 args (strip stdin_text)) =
         fst (run_tokenizer lib2 args (strip stdin_text))"
  shows "stdout (script (Some lib1) argv1 stdin_text) = stdout (script (Some lib2) argv2 stdin_text)"
  using assms
  by (cases "run_tokenizer lib1 args (strip stdin_text)";
      cases "run_tokenizer lib2 args (strip stdin_text)")
     (auto simp: script_def main_def main_body_def Let_def split: sum.splits)

theorem stdout_determined_by_morphemes_witness:
  "parse_args [str_of ''--mode'', str_of ''C''] = Parsed \<lparr>mode = str_of ''C'', config = None\<rparr> \<and>
   parse_args [] = Parsed \<lparr>mode = str_of ''C'', config = None\<rparr> \<and>
   fst (run_tokenizer example_lib \<lparr>mode = str_of ''C'', config = None\<rparr> (strip [26481])) =
     fst (run_tokenizer (example_lib\<lparr>create := \<lambda>d. Inr 7\<rparr>)
            \<lparr>mode = str_of ''C'', config = None\<rparr> (strip [26481])) \<and>
   stdout (script (Some example_lib) [str_of ''--mode'', str_of ''C''] [26481]) =
     stdout (script (Some (example_lib\<lparr>create := \<lambda>d. Inr 7\<rparr>)) [] [26481]) \<and>
   calls (script (Some example_lib) [str_of ''--mode'', str_of ''C''] [26481]) \<noteq>
     calls (script (Some (example_lib\<lparr>create := \<lambda>d. Inr 7\<rparr>)) [] [26481])"
proof -
  let ?ns = "\<lparr>mode = str_of ''C'', config = None\<rparr>"
  have t: "fst (run_tokenizer example_lib ?ns (strip [26481])) =
     fst (run_tokenizer (example_lib\<lparr>create := \<lambda>d. Inr 7\<rparr>) ?ns (strip [26481]))"
    by (simp add: run_tokenizer_example run_tokenizer_example_other_handle)
  have k: "calls (script (Some example_lib) [str_of ''--mode'', str_of ''C''] [26481]) \<noteq>
     calls (script (Some (example_lib\<lparr>create := \<lambda>d. Inr 7\<rparr>)) [] [26481])"
    by (simp add: script_def main_def parse_args_mode_C parse_args_no_arguments main_body_def
        strip_example run_tokenizer_example run_tokenizer_example_other_handle)
  show ?thesis
    using t k parse_args_no_arguments
      stdout_determined_by_morphemes [OF parse_args_mode_C parse_args_no_arguments t]
    by (simp add: parse_args_mode_C)
qed

section \<open>The output array\<close>





section \<open>Non-ASCII text\<close>

lemma non_ascii_append [simp]: "non_ascii (xs @ ys) = non_ascii xs @ non_ascii ys"
  by (simp add: non_ascii_def)

lemma non_ascii_Nil [simp]: "non_ascii [] = []"
  by (simp add: non_ascii_def)

lemma non_ascii_Cons_ascii [simp]: "c < 128 \<Longrightarrow> non_ascii (c # s) = non_ascii s"
  by (simp add: non_ascii_def)

lemma escape_non_ascii: "128 \<le> c \<Longrightarrow> escape c = [c]"
  by (simp add: escape_def)

lemma hex_digit_ascii: "d < 16 \<Longrightarrow> hex_digit d < 128"
  by (simp add: hex_digit_def)

lemma non_ascii_escape: "non_ascii (escape c) = (if 128 \<le> c then [c] else [])"
proof (cases "c < 32")
  case True
  then have "c div 16 < 16" "c mod 16 < 16" by auto
  then show ?thesis using True by (simp add: escape_def hex_digit_ascii)
next
  case False
  then show ?thesis by (simp add: escape_def non_ascii_def)
qed

lemma non_ascii_concat_escape: "non_ascii (concat (map escape s)) = non_ascii s"
proof (induction s)
  case Nil
  show ?case by simp
next
  case (Cons c s)
  then show ?case by (simp add: non_ascii_escape) (simp add: non_ascii_def)
qed

lemma non_ascii_encode_basestring: "non_ascii (encode_basestring s) = non_ascii s"
  by (simp add: encode_basestring_def non_ascii_concat_escape)

lemma non_ascii_join: "non_ascii sep = [] \<Longrightarrow> non_ascii (join sep xs) = concat (map non_ascii xs)"
  by (induction sep xs rule: join.induct) simp_all

lemma non_ascii_keys:
  "non_ascii (str_of ''surface'') = []" "non_ascii (str_of ''dictionaryForm'') = []"
  "non_ascii (str_of ''reading'') = []" "non_ascii (str_of ''partOfSpeech'') = []"
  "non_ascii (str_of ''normalizedForm'') = []"
  by (simp_all add: str_of_def non_ascii_def)

lemma non_ascii_dumps_morpheme_dict:
  "non_ascii (dumps (morpheme_dict m)) = non_ascii_of_morpheme m"
  by (simp add: morpheme_dict_def non_ascii_of_morpheme_def non_ascii_encode_basestring
      non_ascii_keys non_ascii_join comp_def)

lemma non_ascii_dumps_payload:
  "non_ascii (dumps (JList (map morpheme_dict ms))) = concat (map non_ascii_of_morpheme ms)"
  by (simp add: non_ascii_join comp_def non_ascii_dumps_morpheme_dict)

lemma sublist_join: "x \<in> set xs \<Longrightarrow> sublist x (join sep xs)"
proof (induction sep xs rule: join.induct)
  case (3 sep a b ys)
  show ?case
  proof (cases "x = a")
    case True
    then show ?thesis by simp
  next
    case False
    with 3 have "sublist x (join sep (b # ys))" by simp
    then obtain ps ss where "join sep (b # ys) = ps @ x @ ss" by (auto simp: sublist_def)
    then have "join sep (a # b # ys) = (a @ sep @ ps) @ x @ ss" by simp
    then show ?thesis unfolding sublist_def by blast
  qed
qed simp_all

lemma sublist_mid: "sublist xs ys \<Longrightarrow> sublist xs (ps @ ys @ ss)"
proof -
  assume "sublist xs ys"
  then obtain p s where "ys = p @ xs @ s" by (auto simp: sublist_def)
  then have "ps @ ys @ ss = (ps @ p) @ xs @ (s @ ss)" by simp
  then show ?thesis unfolding sublist_def by blast
qed

lemma sublist_field_morpheme_dict:
  "sublist (encode_basestring (surface m)) (dumps (morpheme_dict m))"
  "sublist (encode_basestring (dictionary_form m)) (dumps (morpheme_dict m))"
  "sublist (encode_basestring (reading_form m)) (dumps (morpheme_dict m))"
  "sublist (encode_basestring (normalized_form m)) (dumps (morpheme_dict m))"
proof -
  let ?kv = "\<lambda>k v. encode_basestring (str_of k) @ [58, 32] @ v"
  have parts: "dumps (morpheme_dict m) = [123] @ join [44, 32]
      [?kv ''surface'' (encode_basestring (surface m)),
       ?kv ''dictionaryForm'' (encode_basestring (dictionary_form m)),
       ?kv ''reading'' (encode_basestring (reading_form m)),
       ?kv ''partOfSpeech'' (dumps (JList (map JStr (part_of_speech m)))),
       ?kv ''normalizedForm'' (encode_basestring (normalized_form m))] @ [125]"
    by (simp add: morpheme_dict_def)
  have "sublist v (dumps (morpheme_dict m))"
    if "?kv k v \<in> set [?kv ''surface'' (encode_basestring (surface m)),
       ?kv ''dictionaryForm'' (encode_basestring (dictionary_form m)),
       ?kv ''reading'' (encode_basestring (reading_form m)),
       ?kv ''partOfSpeech'' (dumps (JList (map JStr (part_of_speech m)))),
       ?kv ''normalizedForm'' (encode_basestring (normalized_form m))]" for k v
  proof -
    have "sublist (?kv k v) (dumps (morpheme_dict m))"
      unfolding parts by (rule sublist_mid, rule sublist_join, rule that)
    then obtain p s where "dumps (morpheme_dict m) = p @ ?kv k v @ s" by (auto simp: sublist_def)
    then have "dumps (morpheme_dict m) = (p @ encode_basestring (str_of k) @ [58, 32]) @ v @ s" by simp
    then show ?thesis unfolding sublist_def by blast
  qed
  from this [of "''surface''"] this [of "''dictionaryForm''"] this [of "''reading''"]
    this [of "''normalizedForm''"]
  show "sublist (encode_basestring (surface m)) (dumps (morpheme_dict m))"
    "sublist (encode_basestring (dictionary_form m)) (dumps (morpheme_dict m))"
    "sublist (encode_basestring (reading_form m)) (dumps (morpheme_dict m))"
    "sublist (encode_basestring (normalized_form m)) (dumps (morpheme_dict m))"
    by simp_all
qed

lemma sublist_dumps_payload:
  "m \<in> set ms \<Longrightarrow> sublist (dumps (morpheme_dict m)) (dumps (JList (map morpheme_dict ms)))"
proof -
  assume "m \<in> set ms"
  then have "sublist (dumps (morpheme_dict m)) (join [44, 32] (map (\<lambda>m. dumps (morpheme_dict m)) ms))"
    by (intro sublist_join) simp
  then have "sublist (dumps (morpheme_dict m))
      ([91] @ join [44, 32] (map (\<lambda>m. dumps (morpheme_dict m)) ms) @ [93])"
    by (rule sublist_mid)
  then show ?thesis by (simp add: comp_def)
qed


lemma example_text:
  \<open>dumps (JList [morpheme_dict (example_morpheme 26481)]) =
     str_of ''[{"surface": "'' @ [26481] @ str_of ''", "dictionaryForm": "'' @ [26481] @
     str_of ''", "reading": "'' @ [26481] @ str_of ''", "partOfSpeech": ["'' @ [21517, 35422] @
     str_of ''", "*"], "normalizedForm": "'' @ [26481] @ str_of ''"}]''\<close>
  by (simp add: morpheme_dict_def example_morpheme_def encode_basestring_def escape_def str_of_def)

text \<open>
  Claim C4. In a run that prints morphemes, the non-ASCII code points of the fields
  stand in the printed text as themselves: \<^verbatim>\<open>encode_basestring\<close> leaves every code point
  from 128 on as it is, the string literal of each of \<^verbatim>\<open>surface\<close>, \<^verbatim>\<open>dictionaryForm\<close>,
  \<^verbatim>\<open>reading\<close> and \<^verbatim>\<open>normalizedForm\<close> of each morpheme is part of the text, and the
  non-ASCII code points of the whole text are exactly those of the morphemes' fields, in
  order. (The encoding of the text to bytes is the output stream's.)
\<close>

theorem non_ascii_written_literally:
  assumes "parse_args argv = Parsed args" and "strip stdin_text \<noteq> []"
    and "fst (run_tokenizer lib args (strip stdin_text)) = Inr morphemes"
  shows "\<exists>out. stdout (script (Some lib) argv stdin_text) = [Text out] \<and>
           non_ascii out = concat (map non_ascii_of_morpheme morphemes) \<and>
           (\<forall>m\<in>set morphemes.
              sublist (encode_basestring (surface m)) out \<and>
              sublist (encode_basestring (dictionary_form m)) out \<and>
              sublist (encode_basestring (reading_form m)) out \<and>
              sublist (encode_basestring (normalized_form m)) out) \<and>
           (\<forall>s. encode_basestring s = [34] @ concat (map escape s) @ [34]) \<and>
           (\<forall>c. 128 \<le> c \<longrightarrow> escape c = [c])"
proof -
  let ?out = "dumps (JList (map morpheme_dict morphemes)) @ [10]"
  have o: "stdout (script (Some lib) argv stdin_text) = [Text ?out]"
    using script_tokenized [OF assms] by (simp add: payload_loop_append print_def)
  have n: "non_ascii ?out = concat (map non_ascii_of_morpheme morphemes)"
    using non_ascii_dumps_payload [of morphemes] by (simp add: non_ascii_def)
  have f: "sublist x ?out" if "m \<in> set morphemes" and "sublist x (dumps (morpheme_dict m))" for m x
  proof -
    from that(1) have "sublist (dumps (morpheme_dict m)) (dumps (JList (map morpheme_dict morphemes)))"
      by (rule sublist_dumps_payload)
    then obtain p s where "dumps (JList (map morpheme_dict morphemes)) = p @ dumps (morpheme_dict m) @ s"
      by (auto simp: sublist_def)
    moreover from that(2) obtain p' s' where "dumps (morpheme_dict m) = p' @ x @ s'"
      by (auto simp: sublist_def)
    ultimately have "?out = (p @ p') @ x @ (s' @ s @ [10])" by simp
    then show ?thesis unfolding sublist_def by blast
  qed
  show ?thesis
    using o n f sublist_field_morpheme_dict escape_non_ascii
    by (intro exI [of _ ?out]) (simp add: encode_basestring_def)
qed

theorem non_ascii_written_literally_witness:
  \<open>parse_args [] = Parsed \<lparr>mode = str_of ''C'', config = None\<rparr> \<and>
   strip [26481] = [26481] \<and>
   fst (run_tokenizer example_lib \<lparr>mode = str_of ''C'', config = None\<rparr> [26481]) =
     Inr [example_morpheme 26481] \<and>
   stdout (script (Some example_lib) [] [26481]) =
     [Text (str_of ''[{"surface": "'' @ [26481] @ str_of ''", "dictionaryForm": "'' @ [26481] @
        str_of ''", "reading": "'' @ [26481] @ str_of ''", "partOfSpeech": ["'' @ [21517, 35422] @
        str_of ''", "*"], "normalizedForm": "'' @ [26481] @ str_of ''"}]'' @ [10])] \<and>
   non_ascii_of_morpheme (example_morpheme 26481) = [26481, 26481, 26481, 21517, 35422, 26481] \<and>
   escape 26481 = [26481]\<close>
proof -
  let ?ns = "\<lparr>mode = str_of ''C'', config = None\<rparr>"
  have n: "strip [26481] \<noteq> []" by (simp add: strip_example)
  have t: "fst (run_tokenizer example_lib ?ns (strip [26481])) = Inr [example_morpheme 26481]"
    by (simp add: strip_example run_tokenizer_example)
  have "stdout (script (Some example_lib) [] [26481]) =
      [Text (dumps (JList [morpheme_dict (example_morpheme 26481)]) @ [10])]"
    using script_tokenized [OF parse_args_no_arguments n t] by (simp add: print_def)
  then have o: \<open>stdout (script (Some example_lib) [] [26481]) =
     [Text (str_of ''[{"surface": "'' @ [26481] @ str_of ''", "dictionaryForm": "'' @ [26481] @
        str_of ''", "reading": "'' @ [26481] @ str_of ''", "partOfSpeech": ["'' @ [21517, 35422] @
        str_of ''", "*"], "normalizedForm": "'' @ [26481] @ str_of ''"}]'' @ [10])]\<close>
    by (simp only: example_text append_assoc)
  have m: "non_ascii_of_morpheme (example_morpheme 26481) = [26481, 26481, 26481, 21517, 35422, 26481]"
    by (simp add: non_ascii_of_morpheme_def example_morpheme_def non_ascii_def)
  show ?thesis
    using o m non_ascii_written_literally [OF parse_args_no_arguments n t]
    by (simp add: parse_args_no_arguments strip_example run_tokenizer_example escape_def)
qed

section \<open>The split mode\<close>


























end
